theory Spec2Isabelle
  imports Complex_Main "HOL-Library.AList"
begin

section \<open>Python values and string helpers\<close>

text \<open>
  Python floats are modelled by their real values: arithmetic and comparisons are exact and
  the non-finite values (NaN, infinities) are outside the model. A decimal literal of the
  source such as 0.6 denotes the real number 0.6.
\<close>

datatype pyval =
    PNone
  | PBool bool
  | PInt int
  | PFloat real
  | PStr string
  | PList "pyval list"
  | PDict "(string \<times> pyval) list"

datatype py_error = TypeError | ValueError | AttributeError

text \<open>\<^verbatim>\<open>str.strip()\<close>: the ASCII white space characters (tab, line feed, vertical tab,
  form feed, carriage return, the separators 0x1c to 0x1f and space).\<close>

definition is_space :: "char \<Rightarrow> bool" where
  "is_space c = ((of_char c :: nat) \<in> {9, 10, 11, 12, 13, 28, 29, 30, 31, 32})"

definition strip :: "string \<Rightarrow> string" where
  "strip s = rev (dropWhile is_space (rev (dropWhile is_space s)))"

definition lower_char :: "char \<Rightarrow> char" where
  "lower_char c =
     (if 65 \<le> (of_char c :: nat) \<and> (of_char c :: nat) \<le> 90
      then char_of ((of_char c :: nat) + 32) else c)"

definition lower :: "string \<Rightarrow> string" where
  "lower s = map lower_char s"

text \<open>\<^verbatim>\<open>sep.join(xs)\<close>\<close>

fun join :: "string \<Rightarrow> string list \<Rightarrow> string" where
  "join sep [] = []"
| "join sep [x] = x"
| "join sep (x # y # ys) = x @ sep @ join sep (y # ys)"

definition digit_char :: "nat \<Rightarrow> char" where
  "digit_char d = char_of (48 + d)"

fun show_nat :: "nat \<Rightarrow> string" where
  "show_nat n = (if n < 10 then [digit_char n] else show_nat (n div 10) @ [digit_char (n mod 10)])"

declare show_nat.simps [simp del]

text \<open>Rounding to the nearest integer, ties to the even neighbour: the rule of Python's
  \<^verbatim>\<open>round\<close> and of its fixed-point formats.\<close>

definition round_half_even :: "real \<Rightarrow> int" where
  "round_half_even x =
     (let f = \<lfloor>x\<rfloor>; d = x - of_int f
      in if d < 1 / 2 then f
         else if 1 / 2 < d then f + 1
         else if even f then f else f + 1)"

text \<open>\<^verbatim>\<open>round(x, 2)\<close>\<close>

definition round2 :: "real \<Rightarrow> real" where
  "round2 x = of_int (round_half_even (x * 100)) / 100"

text \<open>\<^verbatim>\<open>f"{x:.0%}"\<close>: the value times 100 with no decimals, then a percent sign.\<close>

definition fmt_pct :: "real \<Rightarrow> string" where
  "fmt_pct x =
     (if x < 0 then ''-'' else '''') @ show_nat (nat (round_half_even (\<bar>x\<bar> * 100))) @ ''%''"

text \<open>\<^verbatim>\<open>f"{x:.2f}"\<close>\<close>

definition fmt_2f :: "real \<Rightarrow> string" where
  "fmt_2f x =
     (let m = nat (round_half_even (\<bar>x\<bar> * 100))
      in (if x < 0 then ''-'' else '''') @ show_nat (m div 100) @ ''.''
         @ [digit_char ((m mod 100) div 10), digit_char (m mod 10)])"

text \<open>\<^verbatim>\<open>x or 0.0\<close> on an optional float: \<^verbatim>\<open>None\<close> and \<^verbatim>\<open>0.0\<close> are falsy.\<close>

definition or_zero :: "real option \<Rightarrow> real" where
  "or_zero c = (case c of None \<Rightarrow> 0 | Some x \<Rightarrow> if x = 0 then 0 else x)"

text \<open>\<^verbatim>\<open>not s\<close> on an optional string: \<^verbatim>\<open>None\<close> and the empty string are falsy.\<close>

definition falsy_str :: "string option \<Rightarrow> bool" where
  "falsy_str s = (case s of None \<Rightarrow> True | Some t \<Rightarrow> t = [])"

section \<open>The extraction record (services\_ocr\_llm.py)\<close>

datatype InvoiceStatus = OK | NEEDS_REVIEW | ERROR | PENDING | PROCESSING

text \<open>A review question is a dictionary; the keys \<^verbatim>\<open>hint\<close> and \<^verbatim>\<open>options\<close> are optional.\<close>

record review_question =
  field_name :: string
  question :: string
  input_type :: string
  current_value :: pyval
  hint :: "string option"
  options :: "(pyval \<times> string) list option"

record InvoiceExtraction =
  vendor :: "string option"
  date :: "string option"
  amount :: "real option"
  currency :: "string option"
  tax_amount :: "real option"
  category :: "string option"
  payment_method :: "string option"
  transaction_type :: "string option"
  is_paid :: "bool option"
  ocr_confidence :: "real option"
  extraction_confidence :: "real option"
  status :: InvoiceStatus
  review_reason :: "string option"
  review_questions :: "review_question list"

section \<open>Status classifier\<close>

definition determine_status :: "InvoiceExtraction \<Rightarrow> InvoiceStatus \<times> string" where
  "determine_status result =
     (let issues0 = [];
          issues1 = (if amount result = None then issues0 @ [''no amount''] else issues0);
          issues2 = (if date result = None then issues1 @ [''no date''] else issues1);
          issues3 = (if falsy_str (vendor result) then issues2 @ [''no vendor''] else issues2);
          conf = or_zero (extraction_confidence result);
          issues4 = (if conf < 0.6
                     then issues3 @ [''low confidence ('' @ fmt_pct conf @ '')'']
                     else issues3)
      in if issues4 \<noteq> [] then (NEEDS_REVIEW, join '', '' issues4)
         else if 0.75 \<le> conf then (OK, '''')
         else (NEEDS_REVIEW, ''medium confidence ('' @ fmt_pct conf @ '')''))"

section \<open>Review questions builder\<close>

definition q_amount :: review_question where
  "q_amount = \<lparr>field_name = ''amount'',
     question = ''What is the total amount on this invoice?'',
     input_type = ''number'', current_value = PNone,
     hint = Some ''Enter the final total including VAT (in AED unless stated otherwise)'',
     options = None\<rparr>"

definition q_date :: review_question where
  "q_date = \<lparr>field_name = ''date'',
     question = ''What is the invoice date?'',
     input_type = ''date'', current_value = PNone,
     hint = Some ''Format: DD/MM/YYYY (e.g., 15/03/2024)'',
     options = None\<rparr>"

definition q_vendor :: "string option \<Rightarrow> review_question" where
  "q_vendor v = \<lparr>field_name = ''vendor'',
     question = ''Who is the vendor or supplier?'',
     input_type = ''text'',
     current_value = (case v of None \<Rightarrow> PNone | Some s \<Rightarrow> PStr s),
     hint = Some ''Company name as shown on the invoice'',
     options = None\<rparr>"

definition q_is_paid :: review_question where
  "q_is_paid = \<lparr>field_name = ''is_paid'',
     question = ''Has this invoice been paid?'',
     input_type = ''select'', current_value = PNone,
     hint = None,
     options = Some [(PBool True, ''Yes, paid''),
                     (PBool False, ''No, still outstanding''),
                     (PNone, ''Not sure'')]\<rparr>"

definition q_category :: review_question where
  "q_category = \<lparr>field_name = ''category'',
     question = ''What category does this expense belong to?'',
     input_type = ''select'', current_value = PNone,
     hint = None,
     options = Some
       [(PStr ''Occupancy & Facilities'', ''Occupancy & Facilities (rent, DEWA, Ejari)''),
        (PStr ''Telecom & Connectivity'', ''Telecom & Connectivity (Etisalat, du)''),
        (PStr ''Travel & Transport'', ''Travel & Transport (Salik, RTA, fuel)''),
        (PStr ''IT, Software & Cloud'', ''IT, Software & Cloud (AWS, subscriptions)''),
        (PStr ''Professional, Banking & Insurance'',
         ''Professional & Banking (licenses, insurance, PRO)''),
        (PStr ''Office Supplies'', ''Office Supplies''),
        (PStr ''Marketing & Advertising'', ''Marketing & Advertising''),
        (PStr ''Other Business Expenses'', ''Other Business Expenses'')]\<rparr>"

definition q_confirm :: "real \<Rightarrow> review_question" where
  "q_confirm a = \<lparr>field_name = ''amount'',
     question = ''Please verify: is the total amount AED '' @ fmt_2f a @ ''?'',
     input_type = ''confirm_or_correct'', current_value = PFloat a,
     hint = Some ''Confirm if correct, or enter the right amount'',
     options = None\<rparr>"

text \<open>\<^verbatim>\<open>not result.vendor or result.vendor.strip() == ""\<close>\<close>

definition vendor_missing :: "string option \<Rightarrow> bool" where
  "vendor_missing v = (case v of None \<Rightarrow> True | Some s \<Rightarrow> s = [] \<or> strip s = [])"

text \<open>One check of the builder: when the condition holds, the question and its reason
  are appended to the two lists.\<close>

definition check ::
  "bool \<Rightarrow> review_question \<Rightarrow> string \<Rightarrow> review_question list \<times> string list
     \<Rightarrow> review_question list \<times> string list" where
  "check c q t s = (if c then (fst s @ [q], snd s @ [t]) else s)"

text \<open>The five unconditional checks, in the order of the source.\<close>

definition field_checks :: "InvoiceExtraction \<Rightarrow> review_question list \<times> string list" where
  "field_checks result =
     (let s0 = ([], []);
          s1 = check (amount result = None) q_amount ''amount missing'' s0;
          s2 = check (date result = None) q_date ''date missing'' s1;
          s3 = check (vendor_missing (vendor result)) (q_vendor (vendor result))
                 ''vendor missing'' s2;
          s4 = check (is_paid result = None) q_is_paid ''payment status unclear'' s3;
          s5 = check (category result = None) q_category ''category missing'' s4
      in s5)"

definition build_reason :: "string list \<Rightarrow> string" where
  "build_reason reasons =
     (if reasons \<noteq> []
      then ''Needs review: '' @ join '', '' (take 3 reasons)
           @ (if 3 < length reasons
              then '' (+'' @ show_nat (length reasons - 3) @ '' more)'' else '''')
      else ''Needs manual verification'')"

text \<open>Formatting a \<^verbatim>\<open>None\<close> amount with \<^verbatim>\<open>:.2f\<close> raises TypeError.\<close>

definition build_review_questions ::
  "InvoiceExtraction \<Rightarrow> py_error + (review_question list \<times> string)" where
  "build_review_questions result =
     (let (questions, reasons) = field_checks result;
          conf = or_zero (extraction_confidence result)
      in if conf < 0.5 \<and> length questions = 0
         then (case amount result of
                 None \<Rightarrow> Inl TypeError
               | Some a \<Rightarrow>
                   Inr (take 4 (questions @ [q_confirm a]),
                        build_reason (reasons @ [''low extraction confidence''])))
         else Inr (take 4 questions, build_reason reasons))"

subsection \<open>The question list in the words of the specification\<close>

text \<open>A vendor is blank when it is null or consists of white space only.\<close>

definition vendor_blank :: "string option \<Rightarrow> bool" where
  "vendor_blank v = (case v of None \<Rightarrow> True | Some s \<Rightarrow> strip s = [])"

text \<open>The questions of the conditions that hold, in priority order: amount, date, vendor,
  payment status, category.\<close>

definition fired_questions :: "InvoiceExtraction \<Rightarrow> review_question list" where
  "fired_questions r =
       (if amount r = None then [q_amount] else [])
     @ (if date r = None then [q_date] else [])
     @ (if vendor_blank (vendor r) then [q_vendor (vendor r)] else [])
     @ (if is_paid r = None then [q_is_paid] else [])
     @ (if category r = None then [q_category] else [])"

text \<open>The last-resort question is added only when nothing fired and the confidence (null
  counting as 0) is below 0.5; the list is then cut to its first four entries.\<close>

definition spec_question_list :: "InvoiceExtraction \<Rightarrow> review_question list" where
  "spec_question_list r =
     (let last_resort =
            (case amount r of
               None \<Rightarrow> []
             | Some a \<Rightarrow>
                 if fired_questions r = []
                    \<and> (case extraction_confidence r of None \<Rightarrow> 0 | Some c \<Rightarrow> c) < 0.5
                 then [q_confirm a] else [])
      in take 4 (fired_questions r @ last_resort))"

subsection \<open>Example extractions\<close>

definition ex_complete :: InvoiceExtraction where
  "ex_complete = \<lparr>vendor = Some ''DEWA'', date = Some ''2024-03-15'', amount = Some 105,
     currency = Some ''AED'', tax_amount = Some 5, category = Some ''Occupancy & Facilities'',
     payment_method = Some ''card'', transaction_type = Some ''b2b'', is_paid = Some True,
     ocr_confidence = None, extraction_confidence = Some 0.9, status = NEEDS_REVIEW,
     review_reason = None, review_questions = []\<rparr>"

definition ex_empty :: InvoiceExtraction where
  "ex_empty = \<lparr>vendor = None, date = None, amount = None,
     currency = Some ''AED'', tax_amount = None, category = None,
     payment_method = None, transaction_type = Some ''b2b'', is_paid = None,
     ocr_confidence = None, extraction_confidence = Some 0, status = NEEDS_REVIEW,
     review_reason = None, review_questions = []\<rparr>"

section \<open>Answer normalisation (routes/invoices.py)\<close>

text \<open>A Python dictionary is an association list with distinct keys, in insertion order:
  \<^verbatim>\<open>d.get(k)\<close> yields \<^verbatim>\<open>None\<close> for a missing key, and \<^verbatim>\<open>d[k] = v\<close>
  (\<^const>\<open>AList.update\<close>) replaces the value in place or appends the new key.\<close>

type_synonym pydict = "(string \<times> pyval) list"

definition dict_get :: "pydict \<Rightarrow> string \<Rightarrow> pyval" where
  "dict_get d k = (case map_of d k of None \<Rightarrow> PNone | Some v \<Rightarrow> v)"

definition dict_keys :: "pydict \<Rightarrow> string set" where
  "dict_keys d = set (map fst d)"

text \<open>The detail of an HTTP error is a message; the message about invalid fields prints
  two Python sets, which are kept as sets.\<close>

datatype detail =
    Msg string
  | InvalidFields "string set" "string set"

datatype http_error = HTTPException nat detail

definition DEFAULT_VAT_RATE :: real where
  "DEFAULT_VAT_RATE = 0.05"

definition ALLOWED_ANSWER_FIELDS :: "string set" where
  "ALLOWED_ANSWER_FIELDS =
     {''vendor'', ''date'', ''amount'', ''currency'', ''tax_amount'', ''category'',
      ''payment_method'', ''transaction_type'', ''is_paid'', ''notes'', ''vat_inclusive''}"

definition coerce_bool :: "pyval \<Rightarrow> bool option" where
  "coerce_bool v =
     (case v of
        PNone \<Rightarrow> None
      | PBool b \<Rightarrow> Some b
      | PInt n \<Rightarrow> Some (n \<noteq> 0)
      | PFloat x \<Rightarrow> Some (x \<noteq> 0)
      | PStr t \<Rightarrow>
          (let s = lower (strip t)
           in if s \<in> {''true'', ''1'', ''yes'', ''y''} then Some True
              else if s \<in> {''false'', ''0'', ''no'', ''n''} then Some False
              else None)
      | PList _ \<Rightarrow> None
      | PDict _ \<Rightarrow> None)"

text \<open>\<^verbatim>\<open>float(v)\<close>. The parser of numeric strings belongs to the language, not to the
  repository: it is the parameter \<open>parse\<close>, which yields \<open>None\<close> where Python raises
  ValueError.\<close>

definition py_float :: "(string \<Rightarrow> real option) \<Rightarrow> pyval \<Rightarrow> py_error + real" where
  "py_float parse v =
     (case v of
        PNone \<Rightarrow> Inl TypeError
      | PBool b \<Rightarrow> Inr (if b then 1 else 0)
      | PInt n \<Rightarrow> Inr (of_int n)
      | PFloat x \<Rightarrow> Inr x
      | PStr s \<Rightarrow> (case parse s of None \<Rightarrow> Inl ValueError | Some x \<Rightarrow> Inr x)
      | PList _ \<Rightarrow> Inl TypeError
      | PDict _ \<Rightarrow> Inl TypeError)"

text \<open>The optional \<^verbatim>\<open>tax_amount\<close> of the answers: absent, null and the empty string
  count as not provided.\<close>

definition read_tax_amount ::
  "(string \<Rightarrow> real option) \<Rightarrow> pydict \<Rightarrow> http_error + real option" where
  "read_tax_amount parse out =
     (let tax_amount = dict_get out ''tax_amount''
      in if tax_amount \<noteq> PNone \<and> tax_amount \<noteq> PStr ''''
         then (case py_float parse tax_amount of
                 Inl _ \<Rightarrow> Inl (HTTPException 400 (Msg ''tax_amount must be a number''))
               | Inr t \<Rightarrow> Inr (Some t))
         else Inr None)"

definition normalize_vat :: "(string \<Rightarrow> real option) \<Rightarrow> pydict \<Rightarrow> http_error + pydict" where
  "normalize_vat parse answers =
     (let out = answers;
          vat_inclusive = coerce_bool (dict_get out ''vat_inclusive'')
      in if ''vat_inclusive'' \<in> dict_keys out \<and> vat_inclusive = None
         then Inl (HTTPException 400 (Msg ''vat_inclusive must be a boolean''))
         else case vat_inclusive of
           None \<Rightarrow> Inr out
         | Some vi \<Rightarrow>
             if dict_get out ''amount'' = PNone
             then Inr (AList.update ''vat_inclusive'' (PBool vi) out)
             else case py_float parse (dict_get out ''amount'') of
               Inl _ \<Rightarrow> Inl (HTTPException 400 (Msg ''amount must be a number''))
             | Inr entered_amount \<Rightarrow>
                 (case read_tax_amount parse out of
                    Inl e \<Rightarrow> Inl e
                  | Inr tax_opt \<Rightarrow>
                      if vi
                      then (let gross = entered_amount;
                                tax_amount = (case tax_opt of
                                    None \<Rightarrow> gross - gross / (1.0 + DEFAULT_VAT_RATE)
                                  | Some t \<Rightarrow> t)
                            in Inr (AList.update ''vat_inclusive'' (PBool True)
                                 (AList.update ''tax_amount'' (PFloat (round2 tax_amount))
                                   (AList.update ''amount'' (PFloat (round2 gross)) out))))
                      else (let tax_amount = (case tax_opt of
                                    None \<Rightarrow> entered_amount * DEFAULT_VAT_RATE
                                  | Some t \<Rightarrow> t)
                            in Inr (AList.update ''vat_inclusive'' (PBool False)
                                 (AList.update ''tax_amount'' (PFloat (round2 tax_amount))
                                   (AList.update ''amount''
                                      (PFloat (round2 entered_amount)) out))))))"

section \<open>The invoice row and the review endpoints (routes/invoices.py)\<close>

text \<open>The text column \<^verbatim>\<open>review_questions\<close> is modelled by what \<^verbatim>\<open>json.loads\<close> makes of
  it: the empty string, a text that is not JSON, a JSON value that is not a list, or a list
  of question dictionaries. \<^verbatim>\<open>json.dumps\<close> of a list of questions is the last case.\<close>

datatype json_text = EmptyText | Malformed | NonList | QuestionList "review_question list"

text \<open>The columns of the ORM class \<^verbatim>\<open>Invoice\<close>, without the two time stamps that the
  database maintains; a Python attribute can hold \<^verbatim>\<open>None\<close> whatever the column says.\<close>

record Invoice =
  inv_id :: "int option"
  inv_import_timestamp :: "string option"
  inv_company_id :: "int option"
  inv_file_original_name :: "string option"
  inv_file_new_path :: "string option"
  inv_source :: "string option"
  inv_date :: "string option"
  inv_vendor :: "string option"
  inv_amount :: "real option"
  inv_currency :: "string option"
  inv_tax_amount :: "real option"
  inv_category :: "string option"
  inv_payment_method :: "string option"
  inv_transaction_type :: "string option"
  inv_is_paid :: "int option"
  inv_ocr_confidence :: "real option"
  inv_extraction_confidence :: "real option"
  inv_status :: "string option"
  inv_notes :: "string option"
  inv_review_questions :: "json_text option"
  inv_review_reason :: "string option"

text \<open>The table: rows addressed by the key under which they are loaded.\<close>

type_synonym db = "int \<rightharpoonup> Invoice"

text \<open>What the persistence layer makes of a Python value assigned to a column of each
  type. This is the behaviour of the ORM and of the database, not of the repository, so it
  is a parameter of the model.\<close>

record column_binding =
  bind_text :: "pyval \<Rightarrow> string option"
  bind_real :: "pyval \<Rightarrow> real option"
  bind_integer :: "pyval \<Rightarrow> int option"
  bind_json :: "pyval \<Rightarrow> json_text option"

text \<open>\<^verbatim>\<open>if hasattr(invoice, k): setattr(invoice, k, v)\<close>, for the columns of the model.\<close>

definition invoice_setattr :: "column_binding \<Rightarrow> string \<Rightarrow> pyval \<Rightarrow> Invoice \<Rightarrow> Invoice" where
  "invoice_setattr bd k v invoice =
     (if k = ''id'' then invoice\<lparr>inv_id := bind_integer bd v\<rparr>
      else if k = ''import_timestamp'' then invoice\<lparr>inv_import_timestamp := bind_text bd v\<rparr>
      else if k = ''company_id'' then invoice\<lparr>inv_company_id := bind_integer bd v\<rparr>
      else if k = ''file_original_name''
        then invoice\<lparr>inv_file_original_name := bind_text bd v\<rparr>
      else if k = ''file_new_path'' then invoice\<lparr>inv_file_new_path := bind_text bd v\<rparr>
      else if k = ''source'' then invoice\<lparr>inv_source := bind_text bd v\<rparr>
      else if k = ''date'' then invoice\<lparr>inv_date := bind_text bd v\<rparr>
      else if k = ''vendor'' then invoice\<lparr>inv_vendor := bind_text bd v\<rparr>
      else if k = ''amount'' then invoice\<lparr>inv_amount := bind_real bd v\<rparr>
      else if k = ''currency'' then invoice\<lparr>inv_currency := bind_text bd v\<rparr>
      else if k = ''tax_amount'' then invoice\<lparr>inv_tax_amount := bind_real bd v\<rparr>
      else if k = ''category'' then invoice\<lparr>inv_category := bind_text bd v\<rparr>
      else if k = ''payment_method'' then invoice\<lparr>inv_payment_method := bind_text bd v\<rparr>
      else if k = ''transaction_type''
        then invoice\<lparr>inv_transaction_type := bind_text bd v\<rparr>
      else if k = ''is_paid'' then invoice\<lparr>inv_is_paid := bind_integer bd v\<rparr>
      else if k = ''ocr_confidence'' then invoice\<lparr>inv_ocr_confidence := bind_real bd v\<rparr>
      else if k = ''extraction_confidence''
        then invoice\<lparr>inv_extraction_confidence := bind_real bd v\<rparr>
      else if k = ''status'' then invoice\<lparr>inv_status := bind_text bd v\<rparr>
      else if k = ''notes'' then invoice\<lparr>inv_notes := bind_text bd v\<rparr>
      else if k = ''review_questions''
        then invoice\<lparr>inv_review_questions := bind_json bd v\<rparr>
      else if k = ''review_reason'' then invoice\<lparr>inv_review_reason := bind_text bd v\<rparr>
      else invoice)"

text \<open>\<^verbatim>\<open>json.loads\<close>: a decoding error, or the decoded value when it is a list.\<close>

definition json_loads :: "json_text \<Rightarrow> py_error + review_question list option" where
  "json_loads t =
     (case t of
        EmptyText \<Rightarrow> Inl ValueError
      | Malformed \<Rightarrow> Inl ValueError
      | NonList \<Rightarrow> Inr None
      | QuestionList qs \<Rightarrow> Inr (Some qs))"

text \<open>The first block of \<^verbatim>\<open>_get_or_build_review_questions\<close>: the stored list, when the
  column is truthy, decodes, and holds a non-empty list.\<close>

definition stored_questions :: "Invoice \<Rightarrow> review_question list option" where
  "stored_questions invoice =
     (case inv_review_questions invoice of
        None \<Rightarrow> None
      | Some t \<Rightarrow>
          if t = EmptyText then None
          else (case json_loads t of
                  Inl _ \<Rightarrow> None
                | Inr None \<Rightarrow> None
                | Inr (Some stored) \<Rightarrow> if stored \<noteq> [] then Some stored else None))"

text \<open>Every question is a dictionary, so the loop keeps each of them.\<close>

definition to_jsonable_questions :: "review_question list \<Rightarrow> review_question list" where
  "to_jsonable_questions questions =
     (if questions = [] then [] else foldl (\<lambda>out q. out @ [q]) [] questions)"

definition extract_field_names :: "review_question list \<Rightarrow> string set" where
  "extract_field_names questions =
     set (filter (\<lambda>fn. fn \<noteq> []) (map field_name questions))"

text \<open>The extraction built from the row; the defaults of the dataclass fill the rest.
  Only the presence of \<^verbatim>\<open>is_paid\<close> is read later.\<close>

definition extraction_of_invoice :: "Invoice \<Rightarrow> InvoiceExtraction" where
  "extraction_of_invoice invoice =
     \<lparr>vendor = inv_vendor invoice, date = inv_date invoice, amount = inv_amount invoice,
      currency = inv_currency invoice, tax_amount = inv_tax_amount invoice,
      category = inv_category invoice, payment_method = inv_payment_method invoice,
      transaction_type = inv_transaction_type invoice,
      is_paid = map_option (\<lambda>n. n \<noteq> 0) (inv_is_paid invoice),
      ocr_confidence = inv_ocr_confidence invoice,
      extraction_confidence = inv_extraction_confidence invoice,
      status = NEEDS_REVIEW, review_reason = None, review_questions = []\<rparr>"

text \<open>The result is the pair returned by the source, then the invoice object and the table
  as the call leaves them.\<close>

definition get_or_build_review_questions ::
  "int \<Rightarrow> Invoice \<Rightarrow> db
     \<Rightarrow> py_error + ((review_question list \<times> string option) \<times> Invoice \<times> db)" where
  "get_or_build_review_questions key invoice d =
     (case stored_questions invoice of
        Some stored \<Rightarrow> Inr ((stored, inv_review_reason invoice), invoice, d)
      | None \<Rightarrow>
          if inv_status invoice \<noteq> Some ''needs_review''
          then Inr (([], inv_review_reason invoice), invoice, d)
          else (case build_review_questions (extraction_of_invoice invoice) of
                  Inl e \<Rightarrow> Inl e
                | Inr (questions, reason) \<Rightarrow>
                    (let questions_dicts = to_jsonable_questions questions;
                         invoice' = invoice
                           \<lparr>inv_review_questions :=
                              (if questions_dicts \<noteq> []
                               then Some (QuestionList questions_dicts) else None),
                            inv_review_reason := Some reason\<rparr>
                     in Inr ((questions_dicts, Some reason), invoice', d(key \<mapsto> invoice')))))"

text \<open>The loop over the answers of \<^verbatim>\<open>resolve_review\<close>.\<close>

definition apply_answers :: "column_binding \<Rightarrow> pydict \<Rightarrow> Invoice \<Rightarrow> Invoice" where
  "apply_answers bd answers invoice =
     foldl (\<lambda>inv (k, v). if k = ''vat_inclusive'' then inv else invoice_setattr bd k v inv)
       invoice answers"

definition close_review :: "int \<Rightarrow> Invoice \<Rightarrow> db \<Rightarrow> (http_error + Invoice) \<times> db" where
  "close_review key invoice d =
     (let invoice' = invoice\<lparr>inv_status := Some ''ok'', inv_review_questions := None,
                              inv_review_reason := None\<rparr>
      in (Inr invoice', d(key \<mapsto> invoice')))"

definition status_text :: "string option \<Rightarrow> string" where
  "status_text s = (case s of None \<Rightarrow> ''None'' | Some t \<Rightarrow> t)"

text \<open>The endpoint \<^verbatim>\<open>POST /{invoice_id}/resolve-review\<close>: its response or error, and the
  table afterwards. An exception that is not an HTTPException is answered with status 500.\<close>

definition resolve_review ::
  "column_binding \<Rightarrow> (string \<Rightarrow> real option) \<Rightarrow> int \<Rightarrow> pydict \<Rightarrow> db
     \<Rightarrow> (http_error + Invoice) \<times> db" where
  "resolve_review bd parse invoice_id payload_answers d =
     (case d invoice_id of
        None \<Rightarrow> (Inl (HTTPException 404 (Msg ''Invoice not found'')), d)
      | Some invoice \<Rightarrow>
          if inv_status invoice \<noteq> Some ''needs_review''
          then (Inl (HTTPException 400
                  (Msg (''Invoice status is '' @ [CHR 0x27] @ status_text (inv_status invoice)
                        @ [CHR 0x27] @ '', not '' @ [CHR 0x27] @ ''needs_review''
                        @ [CHR 0x27] @ ''. Nothing to resolve.''))), d)
          else (case get_or_build_review_questions invoice_id invoice d of
                  Inl e \<Rightarrow> (Inl (HTTPException 500 (Msg ''Internal Server Error'')), d)
                | Inr ((existing_questions, _), invoice1, d1) \<Rightarrow>
                    if payload_answers \<noteq> []
                    then (case normalize_vat parse payload_answers of
                            Inl e \<Rightarrow> (Inl e, d1)
                          | Inr answers \<Rightarrow>
                              (let valid_fields =
                                     (if existing_questions \<noteq> []
                                      then extract_field_names existing_questions
                                           \<union> ALLOWED_ANSWER_FIELDS
                                      else ALLOWED_ANSWER_FIELDS);
                                   invalid = dict_keys answers - valid_fields
                               in if invalid \<noteq> {}
                                  then (Inl (HTTPException 400
                                          (InvalidFields invalid valid_fields)), d1)
                                  else close_review invoice_id
                                         (apply_answers bd answers invoice1) d1))
                    else close_review invoice_id invoice1 d1))"

section \<open>The end of the extraction (services\_ocr\_llm.py)\<close>

text \<open>\<^verbatim>\<open>extract_fields_with_llm\<close> from the point where the record \<open>result\<close> has been built
  from the answer of the language model: the status is determined and the questions are
  generated or cleared.\<close>

definition extract_fields_with_llm :: "InvoiceExtraction \<Rightarrow> py_error + InvoiceExtraction" where
  "extract_fields_with_llm result =
     (let (st, reason) = determine_status result;
          result1 = result\<lparr>status := st\<rparr>
      in if st = NEEDS_REVIEW
         then (case build_review_questions result1 of
                 Inl e \<Rightarrow> Inl e
               | Inr (questions, review_reason') \<Rightarrow>
                   Inr (result1\<lparr>review_questions := questions,
                                 review_reason := Some review_reason'\<rparr>))
         else Inr (result1\<lparr>review_questions := [], review_reason := None\<rparr>))"

subsection \<open>Example rows and requests\<close>

text \<open>A binding that stores the values of a column's own type as they are.\<close>

definition plain_binding :: column_binding where
  "plain_binding =
     \<lparr>bind_text = (\<lambda>v. case v of PStr s \<Rightarrow> Some s | _ \<Rightarrow> None),
      bind_real = (\<lambda>v. case v of PFloat x \<Rightarrow> Some x | PInt n \<Rightarrow> Some (of_int n) | _ \<Rightarrow> None),
      bind_integer = (\<lambda>v. case v of PInt n \<Rightarrow> Some n
                                   | PBool b \<Rightarrow> Some (if b then 1 else 0) | _ \<Rightarrow> None),
      bind_json = (\<lambda>v. None)\<rparr>"

definition no_parse :: "string \<Rightarrow> real option" where
  "no_parse s = None"


text \<open>A row as the pipeline inserts it for a document without readable text.\<close>

definition ex_invoice :: Invoice where
  "ex_invoice =
     \<lparr>inv_id = Some 1, inv_import_timestamp = Some ''2024-03-15 10:00:00'',
      inv_company_id = None, inv_file_original_name = Some ''scan.pdf'',
      inv_file_new_path = Some ''organized/scan.pdf'', inv_source = Some ''upload'',
      inv_date = None, inv_vendor = None, inv_amount = None, inv_currency = Some ''AED'',
      inv_tax_amount = None, inv_category = None, inv_payment_method = None,
      inv_transaction_type = Some ''b2b'', inv_is_paid = None, inv_ocr_confidence = None,
      inv_extraction_confidence = Some 0.3, inv_status = Some ''needs_review'',
      inv_notes = Some '''', inv_review_questions = None, inv_review_reason = None\<rparr>"

definition ex_db :: db where
  "ex_db = Map.empty(1 \<mapsto> ex_invoice)"

text \<open>A complete extraction of medium confidence.\<close>

definition ex_medium :: InvoiceExtraction where
  "ex_medium = ex_complete\<lparr>extraction_confidence := Some 0.6\<rparr>"

section \<open>The service method (services/invoice\_service.py)\<close>

text \<open>Truth value of a Python object.\<close>

definition truthy :: "pyval \<Rightarrow> bool" where
  "truthy v =
     (case v of
        PNone \<Rightarrow> False
      | PBool b \<Rightarrow> b
      | PInt n \<Rightarrow> n \<noteq> 0
      | PFloat x \<Rightarrow> x \<noteq> 0
      | PStr s \<Rightarrow> s \<noteq> []
      | PList xs \<Rightarrow> xs \<noteq> []
      | PDict kvs \<Rightarrow> kvs \<noteq> [])"

text \<open>\<^verbatim>\<open>str(v)\<close>: a string is itself; the printed form of any other value is the
  language's, the parameter \<open>repr\<close>.\<close>

definition py_str :: "(pyval \<Rightarrow> string) \<Rightarrow> pyval \<Rightarrow> string" where
  "py_str repr v = (case v of PStr s \<Rightarrow> s | _ \<Rightarrow> repr v)"

text \<open>One turn of the loop of \<^verbatim>\<open>InvoiceService.resolve_review\<close>; \<^verbatim>\<open>float\<close> may raise.\<close>

definition service_apply_answer ::
  "(string \<Rightarrow> real option) \<Rightarrow> (pyval \<Rightarrow> string) \<Rightarrow> string \<Rightarrow> pyval \<Rightarrow> Invoice
     \<Rightarrow> py_error + Invoice" where
  "service_apply_answer parse repr fname v invoice =
     (if v = PNone then Inr invoice
      else if fname = ''amount'' then
        (if truthy v
         then (case py_float parse v of
                 Inl e \<Rightarrow> Inl e
               | Inr x \<Rightarrow> Inr (invoice\<lparr>inv_amount := Some x\<rparr>))
         else Inr (invoice\<lparr>inv_amount := None\<rparr>))
      else if fname = ''date'' then
        Inr (invoice\<lparr>inv_date := (if truthy v then Some (py_str repr v) else None)\<rparr>)
      else if fname = ''vendor'' then
        Inr (invoice\<lparr>inv_vendor := (if truthy v then Some (py_str repr v) else None)\<rparr>)
      else if fname = ''tax_amount'' then
        (if truthy v
         then (case py_float parse v of
                 Inl e \<Rightarrow> Inl e
               | Inr x \<Rightarrow> Inr (invoice\<lparr>inv_tax_amount := Some x\<rparr>))
         else Inr (invoice\<lparr>inv_tax_amount := None\<rparr>))
      else if fname = ''category'' then
        Inr (invoice\<lparr>inv_category := (if truthy v then Some (py_str repr v) else None)\<rparr>)
      else if fname = ''payment_method'' then
        Inr (invoice\<lparr>inv_payment_method :=
               (if truthy v then Some (py_str repr v) else None)\<rparr>)
      else if fname = ''is_paid'' then
        Inr (invoice\<lparr>inv_is_paid :=
               Some (case v of
                       PBool b \<Rightarrow> (if b then 1 else 0)
                     | PStr s \<Rightarrow> (if lower s \<in> {''true'', ''yes'', ''1''} then 1 else 0)
                     | _ \<Rightarrow> (if truthy v then 1 else 0))\<rparr>)
      else if fname = ''currency'' then
        Inr (invoice\<lparr>inv_currency :=
               Some (if truthy v then py_str repr v else ''AED'')\<rparr>)
      else if fname = ''transaction_type'' then
        Inr (invoice\<lparr>inv_transaction_type :=
               (if truthy v then Some (py_str repr v) else None)\<rparr>)
      else Inr invoice)"

fun service_apply_answers ::
  "(string \<Rightarrow> real option) \<Rightarrow> (pyval \<Rightarrow> string) \<Rightarrow> pydict \<Rightarrow> Invoice \<Rightarrow> py_error + Invoice" where
  "service_apply_answers parse repr [] invoice = Inr invoice"
| "service_apply_answers parse repr ((k, v) # rest) invoice =
     (case service_apply_answer parse repr k v invoice of
        Inl e \<Rightarrow> Inl e
      | Inr invoice' \<Rightarrow> service_apply_answers parse repr rest invoice')"

text \<open>\<^verbatim>\<open>InvoiceService.resolve_review\<close>: \<open>None\<close> for an unknown id; an exception of the
  loop leaves the table as it was. The mirror update at the end is best effort and does not
  touch the table.\<close>

definition service_resolve_review ::
  "(string \<Rightarrow> real option) \<Rightarrow> (pyval \<Rightarrow> string) \<Rightarrow> int \<Rightarrow> pydict \<Rightarrow> db
     \<Rightarrow> (py_error + Invoice option) \<times> db" where
  "service_resolve_review parse repr invoice_id answers d =
     (case d invoice_id of
        None \<Rightarrow> (Inr None, d)
      | Some invoice \<Rightarrow>
          (case service_apply_answers parse repr answers invoice of
             Inl e \<Rightarrow> (Inl e, d)
           | Inr invoice1 \<Rightarrow>
               (let invoice2 = invoice1\<lparr>inv_extraction_confidence := Some 0.95,
                                         inv_status := Some ''ok'',
                                         inv_review_questions := None,
                                         inv_review_reason := None\<rparr>
                in (Inr (Some invoice2), d(invoice_id \<mapsto> invoice2)))))"

definition no_repr :: "pyval \<Rightarrow> string" where
  "no_repr v = ''''"

section \<open>Reverse synchronisation from the sheet (pipeline/storage.py)\<close>

text \<open>A row of the SQLite table is a dictionary from column names to values; the table
  maps the integer primary key to its row. A record of the sheet is a dictionary of cells.\<close>

type_synonym row = "string \<rightharpoonup> pyval"
type_synonym table = "int \<rightharpoonup> row"

definition row_get :: "row \<Rightarrow> string \<Rightarrow> pyval" where
  "row_get r c = (case r c of None \<Rightarrow> PNone | Some v \<Rightarrow> v)"

text \<open>Python's \<^verbatim>\<open>==\<close>: numbers and booleans compare by value, everything else by
  structure.\<close>

definition num_of :: "pyval \<Rightarrow> real option" where
  "num_of v =
     (case v of
        PBool b \<Rightarrow> Some (if b then 1 else 0)
      | PInt n \<Rightarrow> Some (of_int n)
      | PFloat x \<Rightarrow> Some x
      | _ \<Rightarrow> None)"

definition py_eq :: "pyval \<Rightarrow> pyval \<Rightarrow> bool" where
  "py_eq a b =
     (case (num_of a, num_of b) of
        (Some x, Some y) \<Rightarrow> x = y
      | _ \<Rightarrow> a = b)"

text \<open>\<^verbatim>\<open>(v or "").strip()\<close>: a truthy cell that is not a string has no \<^verbatim>\<open>strip\<close>.\<close>

definition cell_strip :: "pyval \<Rightarrow> py_error + string" where
  "cell_strip v =
     (if \<not> truthy v then Inr (strip '''')
      else (case v of PStr s \<Rightarrow> Inr (strip s) | _ \<Rightarrow> Inl AttributeError))"

text \<open>\<^verbatim>\<open>(v or "").strip() or None\<close>\<close>

definition cell_text :: "pyval \<Rightarrow> py_error + pyval" where
  "cell_text v =
     (case cell_strip v of
        Inl e \<Rightarrow> Inl e
      | Inr s \<Rightarrow> Inr (if s = [] then PNone else PStr s))"

text \<open>The update of one text column: the stripped cell, when it differs from the row.\<close>

definition text_update :: "string \<Rightarrow> pydict \<Rightarrow> row \<Rightarrow> py_error + (string \<times> pyval) list" where
  "text_update c record db_invoice =
     (case cell_text (dict_get record c) of
        Inl e \<Rightarrow> Inl e
      | Inr sheet_value \<Rightarrow>
          Inr (if \<not> py_eq sheet_value (row_get db_invoice c) then [(c, sheet_value)] else []))"

text \<open>The tax amount has a try block of its own: a cell that is no number is passed over.\<close>

definition tax_update :: "(string \<Rightarrow> real option) \<Rightarrow> pydict \<Rightarrow> row \<Rightarrow> (string \<times> pyval) list" where
  "tax_update parse record db_invoice =
     (let raw_tax = dict_get record ''tax_amount''
      in if py_eq raw_tax PNone \<or> py_eq raw_tax (PStr '''') \<or> py_eq raw_tax (PStr '' '')
         then (if \<not> py_eq PNone (row_get db_invoice ''tax_amount'')
               then [(''tax_amount'', PNone)] else [])
         else (case py_float parse raw_tax of
                 Inl _ \<Rightarrow> []
               | Inr sheet_tax \<Rightarrow>
                   if \<not> py_eq (PFloat sheet_tax) (row_get db_invoice ''tax_amount'')
                   then [(''tax_amount'', PFloat sheet_tax)] else []))"

definition is_paid_update :: "pydict \<Rightarrow> row \<Rightarrow> (string \<times> pyval) list" where
  "is_paid_update record db_invoice =
     (let sheet_is_paid = dict_get record ''is_paid'';
          sheet_is_paid_int =
            (case sheet_is_paid of
               PBool b \<Rightarrow> Some (if b then 1 else 0)
             | PStr s \<Rightarrow> Some (if lower s \<in> {''true'', ''yes'', ''1'', ''paid''} then 1 else 0)
             | PInt n \<Rightarrow> Some (if n \<noteq> 0 then 1 else 0)
             | PFloat x \<Rightarrow> Some (if x \<noteq> 0 then 1 else 0)
             | _ \<Rightarrow> None)
      in case sheet_is_paid_int of
           None \<Rightarrow> []
         | Some i \<Rightarrow>
             if \<not> py_eq (PInt i) (row_get db_invoice ''is_paid'')
             then [(''is_paid'', PInt i)] else [])"

definition notes_update :: "pydict \<Rightarrow> row \<Rightarrow> py_error + (string \<times> pyval) list" where
  "notes_update record db_invoice =
     (case cell_strip (dict_get record ''notes'') of
        Inl e \<Rightarrow> Inl e
      | Inr sheet_notes \<Rightarrow>
          (let db_notes = (if truthy (row_get db_invoice ''notes'')
                           then row_get db_invoice ''notes'' else PStr '''')
           in Inr (if sheet_notes \<noteq> [] \<and> \<not> py_eq (PStr sheet_notes) db_notes
                   then [(''notes'', PStr sheet_notes)] else [])))"

text \<open>The dictionary \<^verbatim>\<open>updates\<close> of one record, in the order of the source; the first
  exception ends the record.\<close>

definition sheet_updates ::
  "(string \<Rightarrow> real option) \<Rightarrow> pydict \<Rightarrow> row \<Rightarrow> py_error + (string \<times> pyval) list" where
  "sheet_updates parse record db_invoice =
     (case text_update ''vendor'' record db_invoice of
        Inl e \<Rightarrow> Inl e
      | Inr u_vendor \<Rightarrow>
     (case text_update ''category'' record db_invoice of
        Inl e \<Rightarrow> Inl e
      | Inr u_category \<Rightarrow>
     (case text_update ''payment_method'' record db_invoice of
        Inl e \<Rightarrow> Inl e
      | Inr u_payment \<Rightarrow>
     (case text_update ''transaction_type'' record db_invoice of
        Inl e \<Rightarrow> Inl e
      | Inr u_trans \<Rightarrow>
     (case notes_update record db_invoice of
        Inl e \<Rightarrow> Inl e
      | Inr u_notes \<Rightarrow>
          Inr (u_vendor @ tax_update parse record db_invoice @ u_category @ u_payment
               @ u_trans @ is_paid_update record db_invoice @ u_notes))))))"

text \<open>\<^verbatim>\<open>UPDATE invoices SET k = ?, ... WHERE id = ?\<close> on the row.\<close>

definition apply_updates :: "(string \<times> pyval) list \<Rightarrow> row \<Rightarrow> row" where
  "apply_updates updates r = foldl (\<lambda>r' (k, v). r'(k \<mapsto> v)) r updates"

record sync_state =
  sync_table :: table
  updated_count :: nat
  sync_errors :: "(pyval \<times> py_error) list"

text \<open>One turn of the loop over the records of the sheet. Which key the bound id selects
  in \<^verbatim>\<open>WHERE id = ?\<close> is decided by the database: the parameter \<open>sql_key\<close>.\<close>

definition sync_record ::
  "(pyval \<Rightarrow> int option) \<Rightarrow> (string \<Rightarrow> real option) \<Rightarrow> sync_state \<Rightarrow> pydict \<Rightarrow> sync_state" where
  "sync_record sql_key parse st record =
     (let invoice_id = dict_get record ''id''
      in if \<not> truthy invoice_id then st
         else (case sql_key invoice_id of
                 None \<Rightarrow> st
               | Some key \<Rightarrow>
                   (case sync_table st key of
                      None \<Rightarrow> st
                    | Some db_invoice \<Rightarrow>
                        (case sheet_updates parse record db_invoice of
                           Inl e \<Rightarrow> st\<lparr>sync_errors := sync_errors st @ [(invoice_id, e)]\<rparr>
                         | Inr updates \<Rightarrow>
                             if updates \<noteq> []
                             then st\<lparr>sync_table :=
                                       (sync_table st)(key \<mapsto> apply_updates updates db_invoice),
                                     updated_count := updated_count st + 1\<rparr>
                             else st))))"

record sync_report =
  report_status :: string
  report_reason :: "string option"
  report_updated :: nat
  report_errors :: nat
  report_error_details :: "(pyval \<times> py_error) list option"

text \<open>\<^verbatim>\<open>sync_from_sheets_to_db\<close>: the worksheet is \<open>None\<close> when the mirror is disabled or
  not configured, and otherwise holds the records that \<^verbatim>\<open>get_all_records\<close> returns.\<close>

definition sync_from_sheets_to_db ::
  "(pyval \<Rightarrow> int option) \<Rightarrow> (string \<Rightarrow> real option) \<Rightarrow> pydict list option \<Rightarrow> table
     \<Rightarrow> sync_report \<times> table" where
  "sync_from_sheets_to_db sql_key parse ws t =
     (case ws of
        None \<Rightarrow>
          (\<lparr>report_status = ''skipped'',
            report_reason = Some ''Google Sheets not configured or disabled'',
            report_updated = 0, report_errors = 0, report_error_details = None\<rparr>, t)
      | Some all_records \<Rightarrow>
          if all_records = []
          then (\<lparr>report_status = ''success'', report_reason = Some ''Sheet is empty'',
                 report_updated = 0, report_errors = 0, report_error_details = None\<rparr>, t)
          else (let st = foldl (sync_record sql_key parse)
                           \<lparr>sync_table = t, updated_count = 0, sync_errors = []\<rparr> all_records;
                    error_count = length (sync_errors st)
                in (\<lparr>report_status = (if error_count = 0 then ''success'' else ''partial''),
                     report_reason = None,
                     report_updated = updated_count st,
                     report_errors = error_count,
                     report_error_details =
                       (if sync_errors st \<noteq> [] then Some (sync_errors st) else None)\<rparr>,
                    sync_table st)))"

text \<open>The fields that may flow back from the mirror.\<close>

definition mirror_fields :: "string set" where
  "mirror_fields = {''vendor'', ''tax_amount'', ''category'', ''payment_method'',
                    ''transaction_type'', ''is_paid'', ''notes''}"

subsection \<open>Example table and sheet\<close>

definition int_key :: "pyval \<Rightarrow> int option" where
  "int_key v = (case v of PInt n \<Rightarrow> Some n | _ \<Rightarrow> None)"

definition ex_row :: row where
  "ex_row = [''id'' \<mapsto> PInt 1, ''file_original_name'' \<mapsto> PStr ''scan.pdf'',
             ''file_new_path'' \<mapsto> PStr ''organized/scan.pdf'', ''date'' \<mapsto> PStr ''2024-03-15'',
             ''vendor'' \<mapsto> PStr ''DEWA'', ''amount'' \<mapsto> PFloat 105, ''tax_amount'' \<mapsto> PFloat 5,
             ''category'' \<mapsto> PNone, ''is_paid'' \<mapsto> PInt 0, ''notes'' \<mapsto> PStr '''']"

definition ex_table :: table where
  "ex_table = [1 \<mapsto> ex_row]"

text \<open>A sheet row in which every cell was edited, the protected ones included.\<close>

definition ex_sheet :: "pydict list" where
  "ex_sheet = [[(''id'', PInt 1), (''file_original_name'', PStr ''other.pdf''),
                (''file_new_path'', PStr ''elsewhere''), (''date'', PStr ''1999-01-01''),
                (''vendor'', PStr '' Etisalat ''), (''amount'', PFloat 9999),
                (''tax_amount'', PStr ''7.5''), (''category'', PStr ''Telecom & Connectivity''),
                (''is_paid'', PStr ''Paid''), (''notes'', PStr ''checked'')]]"

definition sheet_parse :: "string \<Rightarrow> real option" where
  "sheet_parse s = (if s = ''7.5'' then Some 7.5 else None)"

text \<open>The frame of the synchronisation: the same keys, and in every row the columns outside
  the mirror fields as before.\<close>

definition table_frame :: "table \<Rightarrow> table \<Rightarrow> bool" where
  "table_frame t t' \<longleftrightarrow>
     dom t' = dom t
     \<and> (\<forall>key r. t key = Some r \<longrightarrow>
           (\<exists>r'. t' key = Some r' \<and> (\<forall>c. c \<notin> mirror_fields \<longrightarrow> r' c = r c)))"

section \<open>Properties of the classifier and of the question builder\<close>

lemma strip_Nil: "strip [] = []"
  by (simp add: strip_def)

lemma or_zero_eq: "or_zero c = (case c of None \<Rightarrow> 0 | Some x \<Rightarrow> x)"
  by (simp add: or_zero_def split: option.splits)

lemma vendor_missing_eq: "vendor_missing v = vendor_blank v"
  by (auto simp: vendor_missing_def vendor_blank_def strip_Nil split: option.splits)

lemma fst_check: "fst (check c q t s) = fst s @ (if c then [q] else [])"
  by (simp add: check_def)

lemma fst_field_checks: "fst (field_checks r) = fired_questions r"
  unfolding field_checks_def fired_questions_def Let_def
  by (simp only: fst_check fst_conv append_Nil append_assoc vendor_missing_eq)

lemma fired_nonempty_if_amount_None: "amount r = None \<Longrightarrow> fired_questions r \<noteq> []"
  by (simp add: fired_questions_def)

lemma build_questions_eq:
  "\<exists>reason. build_review_questions r = Inr (spec_question_list r, reason)"
proof -
  obtain qs rs where fc: "field_checks r = (qs, rs)" by (cases "field_checks r")
  have qs: "qs = fired_questions r" using fst_field_checks [of r] fc by simp
  show ?thesis
  proof (cases "amount r")
    case None
    then have "qs \<noteq> []" using qs fired_nonempty_if_amount_None by simp
    with None show ?thesis
      by (simp add: build_review_questions_def spec_question_list_def fc qs [symmetric])
  next
    case (Some a)
    show ?thesis
    proof (cases "or_zero (extraction_confidence r) < 0.5 \<and> qs = []")
      case True
      with Some show ?thesis
        by (simp add: build_review_questions_def spec_question_list_def fc qs [symmetric]
            or_zero_eq)
    next
      case False
      with Some show ?thesis
        by (auto simp add: build_review_questions_def spec_question_list_def fc qs [symmetric]
            or_zero_eq)
    qed
  qed
qed

lemma amount_before_vendor:
  assumes "amount r = None" "vendor_blank (vendor r)"
  shows "\<exists>i j. i < j \<and> j < length (spec_question_list r)
           \<and> spec_question_list r ! i = q_amount
           \<and> spec_question_list r ! j = q_vendor (vendor r)"
proof (cases "date r")
  case None
  with assms have "spec_question_list r ! 0 = q_amount
      \<and> spec_question_list r ! 2 = q_vendor (vendor r)
      \<and> 2 < length (spec_question_list r)"
    by (simp add: spec_question_list_def fired_questions_def)
  then show ?thesis by (intro exI [of _ 0] exI [of _ 2]) simp
next
  case (Some d)
  with assms have "spec_question_list r ! 0 = q_amount
      \<and> spec_question_list r ! 1 = q_vendor (vendor r)
      \<and> 1 < length (spec_question_list r)"
    by (simp add: spec_question_list_def fired_questions_def)
  then show ?thesis by (intro exI [of _ 0] exI [of _ 1]) simp
qed



text \<open>
  C5. The builder returns the questions of exactly the conditions that hold, in the order
  amount, date, vendor, payment status, category, followed by the single confirm-or-correct
  question only when nothing else fired and the confidence is below 0.5, cut to the first
  four entries. It never returns more than four questions, and when amount and vendor are
  both missing the amount question comes before the vendor question.
\<close>

theorem build_review_questions_priority_cap:
  "(\<exists>reason. build_review_questions r = Inr (spec_question_list r, reason))
   \<and> length (spec_question_list r) \<le> 4
   \<and> (amount r = None \<and> vendor_blank (vendor r) \<longrightarrow>
        (\<exists>i j. i < j \<and> j < length (spec_question_list r)
           \<and> spec_question_list r ! i = q_amount
           \<and> spec_question_list r ! j = q_vendor (vendor r)))"
proof -
  have "length (spec_question_list r) \<le> 4"
    by (simp add: spec_question_list_def Let_def)
  with build_questions_eq [of r] amount_before_vendor [of r] show ?thesis by blast
qed

theorem build_review_questions_priority_cap_witness:
  "amount ex_empty = None \<and> vendor_blank (vendor ex_empty)
   \<and> (\<exists>reason. build_review_questions ex_empty
          = Inr ([q_amount, q_date, q_vendor None, q_is_paid], reason))
   \<and> (\<exists>i j. i < j \<and> j < length (spec_question_list ex_empty)
           \<and> spec_question_list ex_empty ! i = q_amount
           \<and> spec_question_list ex_empty ! j = q_vendor (vendor ex_empty))"
proof -
  have a: "amount ex_empty = None \<and> vendor_blank (vendor ex_empty)"
    by (simp add: ex_empty_def vendor_blank_def)
  have l: "spec_question_list ex_empty = [q_amount, q_date, q_vendor None, q_is_paid]"
    by (simp add: spec_question_list_def fired_questions_def ex_empty_def vendor_blank_def)
  from build_review_questions_priority_cap [of ex_empty] a l show ?thesis by simp
qed

text \<open>
  C10. The builder is total: the branch that formats the amount is reached only when no
  question was collected, and then the amount is present, so the builder returns a result
  for every extraction, also for those without an amount.
\<close>

theorem build_review_questions_total:
  "\<exists>qs reason. build_review_questions r = Inr (qs, reason)"
  using build_questions_eq [of r] by blast

section \<open>Properties of the answer normalisation\<close>





section \<open>Properties of the extraction and of the review endpoints\<close>




lemma fired_nonempty_iff:
  "fired_questions r \<noteq> [] \<longleftrightarrow>
     amount r = None \<or> date r = None \<or> vendor_blank (vendor r) \<or> is_paid r = None
     \<or> category r = None"
  by (simp add: fired_questions_def)

lemma spec_question_list_nonempty_iff:
  "spec_question_list r \<noteq> [] \<longleftrightarrow>
     fired_questions r \<noteq> []
     \<or> (case extraction_confidence r of None \<Rightarrow> 0 | Some c \<Rightarrow> c) < 0.5"
proof (cases "amount r")
  case None
  then have "fired_questions r \<noteq> []" by (rule fired_nonempty_if_amount_None)
  then show ?thesis by (simp add: spec_question_list_def Let_def)
next
  case (Some a)
  then show ?thesis by (simp add: spec_question_list_def Let_def)
qed

lemma fired_questions_status_upd:
  "fired_questions (r\<lparr>status := st\<rparr>) = fired_questions r"
  unfolding fired_questions_def by simp

lemma spec_question_list_status_upd:
  "spec_question_list (r\<lparr>status := st\<rparr>) = spec_question_list r"
  unfolding spec_question_list_def fired_questions_status_upd
  by (cases "amount r") simp_all

text \<open>
  C6, as the code has it. The extraction ends in status ok or needs\_review; questions are
  carried only in status needs\_review, and a record in status ok carries none. A record in
  status needs\_review carries a non-empty list exactly when the amount, the date, the
  vendor, the payment status or the category is missing or the confidence is below 0.5.
\<close>

theorem extraction_questions_invariant:
  "\<exists>r'. extract_fields_with_llm r = Inr r'
     \<and> (review_questions r' \<noteq> [] \<longrightarrow> status r' = NEEDS_REVIEW)
     \<and> (status r' = OK \<longrightarrow> review_questions r' = [])
     \<and> (status r' = NEEDS_REVIEW \<longrightarrow>
          (review_questions r' \<noteq> [] \<longleftrightarrow>
             amount r = None \<or> date r = None \<or> vendor_blank (vendor r) \<or> is_paid r = None
             \<or> category r = None
             \<or> (case extraction_confidence r of None \<Rightarrow> 0 | Some c \<Rightarrow> c) < 0.5))"
proof -
  obtain st reason where ds: "determine_status r = (st, reason)"
    by (cases "determine_status r")
  show ?thesis
  proof (cases "st = NEEDS_REVIEW")
    case True
    obtain rr where b: "build_review_questions (r\<lparr>status := st\<rparr>)
        = Inr (spec_question_list r, rr)"
      using build_questions_eq [of "r\<lparr>status := st\<rparr>"]
      by (auto simp: spec_question_list_status_upd)
    have "extract_fields_with_llm r
        = Inr (r\<lparr>status := st, review_questions := spec_question_list r,
                 review_reason := Some rr\<rparr>)"
      by (simp add: extract_fields_with_llm_def ds True [symmetric] b)
    with True show ?thesis
      by (simp add: spec_question_list_nonempty_iff fired_nonempty_iff)
  next
    case False
    then have "extract_fields_with_llm r
        = Inr (r\<lparr>status := st, review_questions := [], review_reason := None\<rparr>)"
      by (simp add: extract_fields_with_llm_def ds)
    with False show ?thesis by simp
  qed
qed

theorem extraction_questions_invariant_witness:
  "amount ex_empty = None
   \<and> (\<exists>r'. extract_fields_with_llm ex_empty = Inr r' \<and> status r' = NEEDS_REVIEW
          \<and> review_questions r' \<noteq> [])"
proof -
  have a: "amount ex_empty = None" by (simp add: ex_empty_def)
  have s: "\<And>r'. extract_fields_with_llm ex_empty = Inr r' \<Longrightarrow> status r' = NEEDS_REVIEW"
    by (auto simp: extract_fields_with_llm_def determine_status_def ex_empty_def Let_def
        falsy_str_def split: prod.splits sum.splits if_splits)
  from extraction_questions_invariant [of ex_empty] a s show ?thesis by blast
qed

text \<open>
  C6 as stated fails: a complete extraction with confidence 0.6 is classified needs\_review
  by the medium-confidence rule, and the builder has no question for it.
\<close>

theorem needs_review_without_questions_counterexample:
  "extract_fields_with_llm ex_medium
     = Inr (ex_medium\<lparr>status := NEEDS_REVIEW, review_questions := [],
                       review_reason := Some ''Needs manual verification''\<rparr>)
   \<and> status (ex_medium\<lparr>status := NEEDS_REVIEW, review_questions := [],
                       review_reason := Some ''Needs manual verification''\<rparr>) = NEEDS_REVIEW
   \<and> review_questions (ex_medium\<lparr>status := NEEDS_REVIEW, review_questions := [],
                       review_reason := Some ''Needs manual verification''\<rparr>) = []"
  by code_simp


















text \<open>
  C2 at a concrete request. The endpoint resolves the review of the example row with the
  answer vendor = DEWA: the vendor is applied, the status becomes ok, questions and reason
  are null, and the extraction confidence is still the 0.3 of the extraction. The service
  method \<^verbatim>\<open>InvoiceService.resolve_review\<close>, which no endpoint calls, sets 0.95 on the same
  input.
\<close>

theorem resolve_review_keeps_confidence:
  "fst (resolve_review plain_binding no_parse 1 [(''vendor'', PStr ''DEWA'')] ex_db)
     = Inr (ex_invoice\<lparr>inv_vendor := Some ''DEWA'', inv_status := Some ''ok''\<rparr>)
   \<and> inv_extraction_confidence (ex_invoice\<lparr>inv_vendor := Some ''DEWA'', inv_status := Some ''ok''\<rparr>)
     = Some 0.3
   \<and> fst (service_resolve_review no_parse no_repr 1 [(''vendor'', PStr ''DEWA'')] ex_db)
     = Inr (Some (ex_invoice\<lparr>inv_vendor := Some ''DEWA'',
                              inv_extraction_confidence := Some 0.95,
                              inv_status := Some ''ok''\<rparr>))"
  by code_simp

section \<open>Properties of the reverse synchronisation\<close>

lemma table_frame_refl: "table_frame t t"
  by (auto simp: table_frame_def)

lemma table_frame_trans:
  assumes "table_frame t t'" "table_frame t' t''"
  shows "table_frame t t''"
  unfolding table_frame_def
proof (intro conjI allI impI)
  from assms show "dom t'' = dom t" by (simp add: table_frame_def)
next
  fix key r
  assume "t key = Some r"
  with assms(1) obtain r' where r': "t' key = Some r'" "\<forall>c. c \<notin> mirror_fields \<longrightarrow> r' c = r c"
    unfolding table_frame_def by blast
  with assms(2) obtain r'' where "t'' key = Some r''" "\<forall>c. c \<notin> mirror_fields \<longrightarrow> r'' c = r' c"
    unfolding table_frame_def by blast
  with r' show "\<exists>r'. t'' key = Some r' \<and> (\<forall>c. c \<notin> mirror_fields \<longrightarrow> r' c = r c)"
    by auto
qed

lemma apply_updates_other:
  "c \<notin> fst ` set us \<Longrightarrow> apply_updates us r c = r c"
  unfolding apply_updates_def
  by (induction us arbitrary: r) (auto split: prod.splits)

lemma text_update_keys:
  "text_update c record r = Inr us \<Longrightarrow> fst ` set us \<subseteq> {c}"
  by (auto simp: text_update_def split: sum.splits if_splits)

lemma tax_update_keys: "fst ` set (tax_update parse record r) \<subseteq> {''tax_amount''}"
  by (auto simp: tax_update_def Let_def split: sum.splits if_splits)

lemma is_paid_update_keys: "fst ` set (is_paid_update record r) \<subseteq> {''is_paid''}"
  by (auto simp: is_paid_update_def Let_def split: option.splits if_splits)

lemma notes_update_keys:
  "notes_update record r = Inr us \<Longrightarrow> fst ` set us \<subseteq> {''notes''}"
  by (auto simp: notes_update_def Let_def split: sum.splits if_splits)

lemma mirror_fields_members:
  "{''vendor''} \<subseteq> mirror_fields" "{''tax_amount''} \<subseteq> mirror_fields"
  "{''category''} \<subseteq> mirror_fields" "{''payment_method''} \<subseteq> mirror_fields"
  "{''transaction_type''} \<subseteq> mirror_fields" "{''is_paid''} \<subseteq> mirror_fields"
  "{''notes''} \<subseteq> mirror_fields"
  by (simp_all add: mirror_fields_def)

lemma sheet_updates_keys:
  assumes "sheet_updates parse record r = Inr us"
  shows "fst ` set us \<subseteq> mirror_fields"
proof -
  from assms obtain u1 where t1: "text_update ''vendor'' record r = Inr u1"
    by (cases "text_update ''vendor'' record r") (simp_all add: sheet_updates_def)
  from assms t1 obtain u2 where t2: "text_update ''category'' record r = Inr u2"
    by (cases "text_update ''category'' record r") (simp_all add: sheet_updates_def)
  from assms t1 t2 obtain u3 where t3: "text_update ''payment_method'' record r = Inr u3"
    by (cases "text_update ''payment_method'' record r") (simp_all add: sheet_updates_def)
  from assms t1 t2 t3 obtain u4 where t4: "text_update ''transaction_type'' record r = Inr u4"
    by (cases "text_update ''transaction_type'' record r") (simp_all add: sheet_updates_def)
  from assms t1 t2 t3 t4 obtain u5 where t5: "notes_update record r = Inr u5"
    by (cases "notes_update record r") (simp_all add: sheet_updates_def)
  from assms t1 t2 t3 t4 t5
  have us: "us = u1 @ tax_update parse record r @ u2 @ u3 @ u4 @ is_paid_update record r @ u5"
    by (simp add: sheet_updates_def)
  have s1: "fst ` set u1 \<subseteq> mirror_fields"
    using text_update_keys [OF t1] mirror_fields_members(1) by (rule subset_trans)
  have s2: "fst ` set (tax_update parse record r) \<subseteq> mirror_fields"
    using tax_update_keys mirror_fields_members(2) by (rule subset_trans)
  have s3: "fst ` set u2 \<subseteq> mirror_fields"
    using text_update_keys [OF t2] mirror_fields_members(3) by (rule subset_trans)
  have s4: "fst ` set u3 \<subseteq> mirror_fields"
    using text_update_keys [OF t3] mirror_fields_members(4) by (rule subset_trans)
  have s5: "fst ` set u4 \<subseteq> mirror_fields"
    using text_update_keys [OF t4] mirror_fields_members(5) by (rule subset_trans)
  have s6: "fst ` set (is_paid_update record r) \<subseteq> mirror_fields"
    using is_paid_update_keys mirror_fields_members(6) by (rule subset_trans)
  have s7: "fst ` set u5 \<subseteq> mirror_fields"
    using notes_update_keys [OF t5] mirror_fields_members(7) by (rule subset_trans)
  from s1 s2 s3 s4 s5 s6 s7 show ?thesis
    unfolding us by (simp add: image_Un)
qed

lemma sync_record_frame:
  "table_frame (sync_table st) (sync_table (sync_record sql_key parse st record))"
proof -
  have upd: "table_frame (sync_table st) ((sync_table st)(key \<mapsto> apply_updates us r))"
    if row: "sync_table st key = Some r" and us: "sheet_updates parse record r = Inr us"
    for key r us
  proof -
    have "\<forall>c. c \<notin> mirror_fields \<longrightarrow> apply_updates us r c = r c"
      using sheet_updates_keys [OF us] apply_updates_other [of _ us r] by blast
    with row show ?thesis
      by (auto simp: table_frame_def)
  qed
  show ?thesis
    by (auto simp: sync_record_def Let_def table_frame_refl upd
        split: option.splits sum.splits)
qed

lemma foldl_sync_record_frame:
  "table_frame (sync_table st) (sync_table (foldl (sync_record sql_key parse) st records))"
proof (induction records arbitrary: st)
  case Nil
  show ?case by (simp add: table_frame_refl)
next
  case (Cons rcd records)
  have "table_frame (sync_table st) (sync_table (sync_record sql_key parse st rcd))"
    by (rule sync_record_frame)
  moreover have "table_frame (sync_table (sync_record sql_key parse st rcd))
      (sync_table (foldl (sync_record sql_key parse) (sync_record sql_key parse st rcd) records))"
    by (rule Cons.IH)
  ultimately show ?case by (simp add: table_frame_trans)
qed

lemma sync_from_sheets_table_frame:
  "table_frame t (snd (sync_from_sheets_to_db sql_key parse ws t))"
proof (cases ws)
  case None
  then show ?thesis by (simp add: sync_from_sheets_to_db_def table_frame_refl)
next
  case (Some all_records)
  show ?thesis
  proof (cases "all_records = []")
    case True
    with Some show ?thesis by (simp add: sync_from_sheets_to_db_def table_frame_refl)
  next
    case False
    have "table_frame (sync_table \<lparr>sync_table = t, updated_count = 0, sync_errors = []\<rparr>)
       (sync_table (foldl (sync_record sql_key parse)
          \<lparr>sync_table = t, updated_count = 0, sync_errors = []\<rparr> all_records))"
      by (rule foldl_sync_record_frame)
    with Some False show ?thesis by (simp add: sync_from_sheets_to_db_def Let_def)
  qed
qed

text \<open>
  C9. Whatever the sheet holds, the reverse synchronisation keeps the rows of the table and
  changes, in a row, only the columns vendor, tax\_amount, category, payment\_method,
  transaction\_type, is\_paid and notes: amount, date, id and the two file paths are as
  before, as is every other column.
\<close>

theorem sync_from_sheets_protected_fields:
  "snd (sync_from_sheets_to_db sql_key parse ws t) = t' \<longrightarrow>
     dom t' = dom t
     \<and> (\<forall>key r. t key = Some r \<longrightarrow>
          (\<exists>r'. t' key = Some r'
             \<and> r' ''amount'' = r ''amount'' \<and> r' ''date'' = r ''date'' \<and> r' ''id'' = r ''id''
             \<and> r' ''file_original_name'' = r ''file_original_name''
             \<and> r' ''file_new_path'' = r ''file_new_path''
             \<and> (\<forall>c. c \<notin> mirror_fields \<longrightarrow> r' c = r c)))"
proof
  assume t': "snd (sync_from_sheets_to_db sql_key parse ws t) = t'"
  have tf: "table_frame t t'"
    using sync_from_sheets_table_frame [of t sql_key parse ws] t' by simp
  have prot: "{''amount'', ''date'', ''id'', ''file_original_name'', ''file_new_path''}
      \<inter> mirror_fields = {}"
    by (simp add: mirror_fields_def)
  show "dom t' = dom t
     \<and> (\<forall>key r. t key = Some r \<longrightarrow>
          (\<exists>r'. t' key = Some r'
             \<and> r' ''amount'' = r ''amount'' \<and> r' ''date'' = r ''date'' \<and> r' ''id'' = r ''id''
             \<and> r' ''file_original_name'' = r ''file_original_name''
             \<and> r' ''file_new_path'' = r ''file_new_path''
             \<and> (\<forall>c. c \<notin> mirror_fields \<longrightarrow> r' c = r c)))"
  proof (intro conjI allI impI)
    from tf show "dom t' = dom t" by (simp add: table_frame_def)
  next
    fix key r
    assume "t key = Some r"
    with tf obtain r' where r': "t' key = Some r'" "\<forall>c. c \<notin> mirror_fields \<longrightarrow> r' c = r c"
      unfolding table_frame_def by blast
    from prot r'(2) have "r' ''amount'' = r ''amount'' \<and> r' ''date'' = r ''date''
        \<and> r' ''id'' = r ''id'' \<and> r' ''file_original_name'' = r ''file_original_name''
        \<and> r' ''file_new_path'' = r ''file_new_path''"
      by (simp add: mirror_fields_def)
    with r' show "\<exists>r'. t' key = Some r'
             \<and> r' ''amount'' = r ''amount'' \<and> r' ''date'' = r ''date'' \<and> r' ''id'' = r ''id''
             \<and> r' ''file_original_name'' = r ''file_original_name''
             \<and> r' ''file_new_path'' = r ''file_new_path''
             \<and> (\<forall>c. c \<notin> mirror_fields \<longrightarrow> r' c = r c)" by blast
  qed
qed

theorem sync_from_sheets_protected_fields_witness:
  "ex_table 1 = Some ex_row
   \<and> (\<exists>r'. snd (sync_from_sheets_to_db int_key sheet_parse (Some ex_sheet) ex_table) 1 = Some r'
        \<and> r' ''amount'' = Some (PFloat 105) \<and> r' ''date'' = Some (PStr ''2024-03-15'')
        \<and> r' ''vendor'' = Some (PStr ''Etisalat''))"
proof -
  have a: "ex_table 1 = Some ex_row" by (simp add: ex_table_def)
  have b: "ex_row ''amount'' = Some (PFloat 105) \<and> ex_row ''date'' = Some (PStr ''2024-03-15'')"
    by (simp add: ex_row_def)
  have v: "map_option (\<lambda>r. r ''vendor'')
       (snd (sync_from_sheets_to_db int_key sheet_parse (Some ex_sheet) ex_table) 1)
       = Some (Some (PStr ''Etisalat''))"
    by code_simp
  from sync_from_sheets_protected_fields [of int_key sheet_parse "Some ex_sheet" ex_table] a b v show ?thesis
    by fastforce
qed

end
